theory Spec2Isabelle
  imports Main "HOL-Library.Word"
begin

section \<open>Issue templates: data model\<close>

text \<open>
  The resolvers keep their data in a key-value store: an index (the ordered list of
  template ids, newest first), one record per template under a per-template key, and
  the global configuration. Template ids, project keys, issue types and account ids are
  only compared for equality and tested for emptiness, so they are \<open>string\<close>s.
  The text fields (\<open>name\<close>, \<open>summary\<close>, \<open>content\<close>) are trimmed by the
  code, so they are sequences of UTF-16 code units, as JavaScript strings are.
\<close>

type_synonym jstext = "16 word list"

text \<open>
  A scope value as a request or a stored record can hold it: an array of strings, or
  something that is not an array. A field that is \<open>undefined\<close> (absent) is \<open>None\<close>
  of the option type around it.
\<close>

datatype jsarr = Arr "string list" | NotArray

text \<open>The field \<open>id\<close> of a template is \<open>id_tpl\<close> here.\<close>

record template =
  id_tpl :: string
  name :: jstext
  summary :: jstext
  content :: jstext
  projects :: "string list"
  assignedProjects :: "jsarr option"
  assignedIssueTypes :: "jsarr option"
  active :: "bool option"
  deleted :: "bool option"
  owner :: "string option"
  createdAt :: string
  updatedAt :: string

record config =
  allowAllUsers :: bool
  admins :: "string list"

record store =
  index :: "string list"
  templates :: "string \<rightharpoonup> template"
  globalConfig :: "config option"

record user =
  accountId :: string
  isProductAdmin :: bool
  isAdmin :: bool

text \<open>
  What a request brings from outside the store: the requesting user of the context (if
  any), the clock read by \<open>nowIso\<close>, the identifier \<open>generateId\<close> produces, and the
  answer of the Jira permission service that \<open>isProjectAdmin\<close> asks for a project key.
\<close>

record env =
  reqUser :: "user option"
  nowIso :: string
  generateId :: string
  jiraProjectAdmin :: "string \<Rightarrow> bool"

datatype error =
    TemplateIdRequired
  | ProjectsMustBeArray
  | IssueTypesMustBeArray
  | TemplateNotFound
  | NotAuthorizedAssignProjects
  | NotAuthorizedAssignIssueTypes
  | NotAuthorizedUpdate
  | NotAuthorizedDelete
  | NotAuthorizedCreate
  | NotAuthorizedGlobalConfig
  | NameRequired
  | ProjectKeyRequired

text \<open>The taxonomy of section 7 of the specification, over the errors the code throws.\<close>

datatype errorKind = Validation | NotFound | Authorization

fun kindOf :: "error \<Rightarrow> errorKind" where
  "kindOf TemplateIdRequired = Validation"
| "kindOf ProjectsMustBeArray = Validation"
| "kindOf IssueTypesMustBeArray = Validation"
| "kindOf NameRequired = Validation"
| "kindOf ProjectKeyRequired = Validation"
| "kindOf TemplateNotFound = NotFound"
| "kindOf NotAuthorizedAssignProjects = Authorization"
| "kindOf NotAuthorizedAssignIssueTypes = Authorization"
| "kindOf NotAuthorizedUpdate = Authorization"
| "kindOf NotAuthorizedDelete = Authorization"
| "kindOf NotAuthorizedCreate = Authorization"
| "kindOf NotAuthorizedGlobalConfig = Authorization"

section \<open>templateassign.js\<close>

text \<open>\<open>!x\<close> for a value that is a string or \<open>undefined\<close>.\<close>

fun falsy :: "string option \<Rightarrow> bool" where
  "falsy None = True"
| "falsy (Some s) = (s = [])"

text \<open>Truthiness of a stored flag that is a boolean or absent.\<close>

fun truthy :: "bool option \<Rightarrow> bool" where
  "truthy None = False"
| "truthy (Some b) = b"

definition defaultConfig :: config where
  "defaultConfig = \<lparr>allowAllUsers = False, admins = []\<rparr>"

definition readGlobalConfig :: "store \<Rightarrow> config" where
  "readGlobalConfig s = (case globalConfig s of None \<Rightarrow> defaultConfig | Some c \<Rightarrow> c)"

definition isAdminRequest :: "env \<Rightarrow> store \<Rightarrow> bool" where
  "isAdminRequest e s =
     (case reqUser e of
        None \<Rightarrow> False
      | Some u \<Rightarrow>
          if accountId u \<in> set (admins (readGlobalConfig s)) then True
          else if isProductAdmin u \<or> isAdmin u then True
          else False)"

definition isProjectAdmin :: "env \<Rightarrow> string \<Rightarrow> bool" where
  "isProjectAdmin e projectKey =
     (if projectKey = [] then False else jiraProjectAdmin e projectKey)"

text \<open>
  \<open>setsOverlap(a = [], b = [])\<close>: an absent argument takes the default \<open>[]\<close>; a
  value that is not an array overlaps nothing.
\<close>

fun orEmpty :: "jsarr option \<Rightarrow> jsarr" where
  "orEmpty None = Arr []"
| "orEmpty (Some v) = v"

fun setsOverlapArr :: "jsarr \<Rightarrow> jsarr \<Rightarrow> bool" where
  "setsOverlapArr (Arr a) (Arr b) =
     (if a = [] \<and> b = [] then True
      else if a = [] \<or> b = [] then True
      else list_ex (\<lambda>x. x \<in> set b) a)"
| "setsOverlapArr _ _ = False"

definition setsOverlap :: "jsarr option \<Rightarrow> jsarr option \<Rightarrow> bool" where
  "setsOverlap a b = setsOverlapArr (orEmpty a) (orEmpty b)"

text \<open>Lines 93 to 95: the two templates overlap on both axes.\<close>

definition scopesOverlap :: "template \<Rightarrow> template \<Rightarrow> bool" where
  "scopesOverlap t other \<longleftrightarrow>
     setsOverlap (assignedProjects t) (assignedProjects other) \<and>
     setsOverlap (assignedIssueTypes t) (assignedIssueTypes other)"

definition setTemplate :: "string \<Rightarrow> template \<Rightarrow> store \<Rightarrow> store" where
  "setTemplate k t s = s\<lparr>templates := (templates s)(k \<mapsto> t)\<rparr>"

text \<open>
  The loop of \<open>enforceUniqueActiveTemplates\<close> over the index read at its start; the
  accumulator is the array \<open>deactivated\<close>, pushed to at its end.
\<close>

fun enforceLoop :: "string \<Rightarrow> template \<Rightarrow> string list \<Rightarrow> store \<Rightarrow> string list
    \<Rightarrow> string list \<times> store" where
  "enforceLoop now t [] s deactivated = (deactivated, s)"
| "enforceLoop now t (i # idx) s deactivated =
     (if i = id_tpl t then enforceLoop now t idx s deactivated
      else case templates s i of
        None \<Rightarrow> enforceLoop now t idx s deactivated
      | Some other \<Rightarrow>
          if truthy (deleted other) then enforceLoop now t idx s deactivated
          else if \<not> truthy (active other) then enforceLoop now t idx s deactivated
          else if scopesOverlap t other
          then enforceLoop now t idx
                 (setTemplate i (other\<lparr>active := Some False, updatedAt := now\<rparr>) s)
                 (deactivated @ [i])
          else enforceLoop now t idx s deactivated)"

definition enforceUniqueActiveTemplates :: "string \<Rightarrow> template \<Rightarrow> store
    \<Rightarrow> string list \<times> store" where
  "enforceUniqueActiveTemplates now t s =
     (if \<not> truthy (active t) then ([], s)
      else enforceLoop now t (index s) s [])"

text \<open>
  The permission check of \<open>assignTemplateToProjects\<close>: the global flag, a global
  admin, the owner, or a project admin of every target project (the loop stops at the
  first project the user does not administer).
\<close>

definition isOwner :: "env \<Rightarrow> template \<Rightarrow> bool" where
  "isOwner e tpl =
     (case reqUser e of None \<Rightarrow> False | Some u \<Rightarrow> owner tpl = Some (accountId u))"

fun allProjectAdmin :: "env \<Rightarrow> string list \<Rightarrow> bool" where
  "allProjectAdmin e [] = True"
| "allProjectAdmin e (p # ps) =
     (if \<not> isProjectAdmin e p then False else allProjectAdmin e ps)"

definition mayAssignProjects :: "env \<Rightarrow> store \<Rightarrow> template \<Rightarrow> string list \<Rightarrow> bool" where
  "mayAssignProjects e s tpl ps =
     (if \<not> allowAllUsers (readGlobalConfig s) \<and> \<not> isAdminRequest e s
      then (if isOwner e tpl then True else allProjectAdmin e ps)
      else True)"

definition mayAssignIssueTypes :: "env \<Rightarrow> store \<Rightarrow> template \<Rightarrow> bool" where
  "mayAssignIssueTypes e s tpl =
     (if \<not> allowAllUsers (readGlobalConfig s) \<and> \<not> isAdminRequest e s
      then (if isOwner e tpl then True else False)
      else True)"

text \<open>\<open>Array.isArray(x) ? x.slice(0) : []\<close>.\<close>

fun arrayOrEmpty :: "jsarr \<Rightarrow> string list" where
  "arrayOrEmpty (Arr xs) = xs"
| "arrayOrEmpty NotArray = []"

text \<open>
  The part of the three mutating handlers after the template is stored: enforcement
  runs only when the stored template is active.
\<close>

definition enforceIfActive :: "string \<Rightarrow> template \<Rightarrow> store \<Rightarrow> string list \<times> store" where
  "enforceIfActive now tpl s =
     (if truthy (active tpl) then enforceUniqueActiveTemplates now tpl s else ([], s))"

text \<open>
  The handlers return \<open>{template, deactivated}\<close>; the model returns the store after
  the call as well.
\<close>

definition assignTemplateToProjects :: "env \<Rightarrow> string option \<Rightarrow> jsarr option
    \<Rightarrow> jsarr option \<Rightarrow> store \<Rightarrow> error + (store \<times> template \<times> string list)" where
  "assignTemplateToProjects e idp projectsP issueTypesP s =
     (case idp of
        None \<Rightarrow> Inl TemplateIdRequired
      | Some i \<Rightarrow>
          if i = [] then Inl TemplateIdRequired
          else (case projectsP of
            None \<Rightarrow> Inl ProjectsMustBeArray
          | Some NotArray \<Rightarrow> Inl ProjectsMustBeArray
          | Some (Arr ps) \<Rightarrow>
              (case templates s i of
                 None \<Rightarrow> Inl TemplateNotFound
               | Some tpl \<Rightarrow>
                   if truthy (deleted tpl) then Inl TemplateNotFound
                   else if \<not> mayAssignProjects e s tpl ps then Inl NotAuthorizedAssignProjects
                   else
                     let tpl1 = tpl\<lparr>assignedProjects := Some (Arr ps)\<rparr>;
                         tpl2 = (case issueTypesP of
                                   None \<Rightarrow> tpl1
                                 | Some v \<Rightarrow> tpl1\<lparr>assignedIssueTypes := Some (Arr (arrayOrEmpty v))\<rparr>);
                         tpl3 = tpl2\<lparr>updatedAt := nowIso e\<rparr>;
                         r = enforceIfActive (nowIso e) tpl3 (setTemplate i tpl3 s)
                     in Inr (snd r, tpl3, fst r))))"

definition assignTemplateToIssueTypes :: "env \<Rightarrow> string option \<Rightarrow> jsarr option
    \<Rightarrow> jsarr option \<Rightarrow> store \<Rightarrow> error + (store \<times> template \<times> string list)" where
  "assignTemplateToIssueTypes e idp issueTypesP projectsP s =
     (case idp of
        None \<Rightarrow> Inl TemplateIdRequired
      | Some i \<Rightarrow>
          if i = [] then Inl TemplateIdRequired
          else (case issueTypesP of
            None \<Rightarrow> Inl IssueTypesMustBeArray
          | Some NotArray \<Rightarrow> Inl IssueTypesMustBeArray
          | Some (Arr its) \<Rightarrow>
              (case templates s i of
                 None \<Rightarrow> Inl TemplateNotFound
               | Some tpl \<Rightarrow>
                   if truthy (deleted tpl) then Inl TemplateNotFound
                   else if \<not> mayAssignIssueTypes e s tpl then Inl NotAuthorizedAssignIssueTypes
                   else
                     let tpl1 = tpl\<lparr>assignedIssueTypes := Some (Arr its)\<rparr>;
                         tpl2 = (case projectsP of
                                   None \<Rightarrow> tpl1
                                 | Some v \<Rightarrow> tpl1\<lparr>assignedProjects := Some (Arr (arrayOrEmpty v))\<rparr>);
                         tpl3 = tpl2\<lparr>updatedAt := nowIso e\<rparr>;
                         r = enforceIfActive (nowIso e) tpl3 (setTemplate i tpl3 s)
                     in Inr (snd r, tpl3, fst r))))"

text \<open>\<open>setTemplateActive\<close>; the argument \<open>activeP\<close> is \<open>Boolean(active)\<close>.\<close>

definition setTemplateActive :: "env \<Rightarrow> string option \<Rightarrow> bool \<Rightarrow> store
    \<Rightarrow> error + (store \<times> template \<times> string list)" where
  "setTemplateActive e idp activeP s =
     (case idp of
        None \<Rightarrow> Inl TemplateIdRequired
      | Some i \<Rightarrow>
          if i = [] then Inl TemplateIdRequired
          else (case templates s i of
            None \<Rightarrow> Inl TemplateNotFound
          | Some tpl \<Rightarrow>
              if truthy (deleted tpl) then Inl TemplateNotFound
              else
                let tpl1 = tpl\<lparr>active := Some activeP, updatedAt := nowIso e\<rparr>;
                    r = enforceIfActive (nowIso e) tpl1 (setTemplate i tpl1 s)
                in Inr (snd r, tpl1, fst r)))"

text \<open>
  \<open>getTemplateAssignments\<close> returns \<open>tpl.assignedProjects || []\<close> and the same for
  the issue types; it does not write.
\<close>

definition getTemplateAssignments :: "string option \<Rightarrow> store \<Rightarrow> error + (jsarr \<times> jsarr)" where
  "getTemplateAssignments idp s =
     (case idp of
        None \<Rightarrow> Inl TemplateIdRequired
      | Some i \<Rightarrow>
          if i = [] then Inl TemplateIdRequired
          else (case templates s i of
            None \<Rightarrow> Inl TemplateNotFound
          | Some tpl \<Rightarrow>
              if truthy (deleted tpl) then Inl TemplateNotFound
              else Inr (orEmpty (assignedProjects tpl), orEmpty (assignedIssueTypes tpl))))"

section \<open>Text helpers\<close>

text \<open>
  \<open>String.prototype.trim\<close> removes the code units of ECMAScript's WhiteSpace and
  LineTerminator productions from both ends.
\<close>

definition isWhiteSpace :: "16 word \<Rightarrow> bool" where
  "isWhiteSpace c \<longleftrightarrow>
     c \<in> set [0x0009, 0x000A, 0x000B, 0x000C, 0x000D, 0x0020, 0x00A0, 0x1680,
              0x2000, 0x2001, 0x2002, 0x2003, 0x2004, 0x2005, 0x2006, 0x2007,
              0x2008, 0x2009, 0x200A, 0x2028, 0x2029, 0x202F, 0x205F, 0x3000, 0xFEFF]"

definition trim :: "jstext \<Rightarrow> jstext" where
  "trim s = rev (dropWhile isWhiteSpace (rev (dropWhile isWhiteSpace s)))"

text \<open>\<open>v === undefined || v === null ? '' : String(v)\<close>, for a text or nothing.\<close>

fun ensureString :: "jstext option \<Rightarrow> jstext" where
  "ensureString None = []"
| "ensureString (Some v) = v"

section \<open>template.js\<close>

record createPayload =
  c_name :: "jstext option"
  c_summary :: "jstext option"
  c_content :: "jstext option"
  c_projects :: "jsarr option"

text \<open>
  \<open>validateCreatePayload\<close>: the name must be a string that is not blank. (A content
  that is not a string is excluded by the payload's type.)
\<close>

definition validateCreatePayload :: "createPayload \<Rightarrow> bool" where
  "validateCreatePayload p =
     (case c_name p of
        None \<Rightarrow> False
      | Some n \<Rightarrow> if n = [] then False else if length (trim n) = 0 then False else True)"

text \<open>
  \<open>createTemplate\<close> stores the new record under the generated id and puts the id at
  the front of the index. The record it writes has the fields \<open>id\<close>, \<open>name\<close>,
  \<open>summary\<close>, \<open>content\<close>, \<open>projects\<close>, \<open>meta\<close>, \<open>owner\<close>,
  \<open>createdAt\<close> and \<open>updatedAt\<close>, and no other: \<open>assignedProjects\<close>,
  \<open>assignedIssueTypes\<close>, \<open>active\<close> and \<open>deleted\<close> are absent.
\<close>

definition createTemplate :: "env \<Rightarrow> createPayload \<Rightarrow> store \<Rightarrow> error + (store \<times> template)" where
  "createTemplate e p s =
     (if \<not> validateCreatePayload p then Inl NameRequired
      else if \<not> allowAllUsers (readGlobalConfig s) \<and> \<not> isAdminRequest e s
      then Inl NotAuthorizedCreate
      else
        let newId = generateId e;
            now = nowIso e;
            t = \<lparr>id_tpl = newId,
                 name = trim (ensureString (c_name p)),
                 summary = (case c_summary p of None \<Rightarrow> [] | Some x \<Rightarrow> if x = [] then [] else x),
                 content = (case c_content p of None \<Rightarrow> [] | Some x \<Rightarrow> if x = [] then [] else x),
                 projects = (case c_projects p of None \<Rightarrow> [] | Some v \<Rightarrow> arrayOrEmpty v),
                 assignedProjects = None,
                 assignedIssueTypes = None,
                 active = None,
                 deleted = None,
                 owner = (case reqUser e of
                            None \<Rightarrow> None
                          | Some u \<Rightarrow> if accountId u = [] then None else Some (accountId u)),
                 createdAt = now,
                 updatedAt = now\<rparr>;
            s1 = setTemplate newId t s
        in Inr (s1\<lparr>index := newId # index s1\<rparr>, t))"

section \<open>globalpage.js\<close>

record updatePayload =
  u_id :: "string option"
  u_name :: "jstext option"
  u_summary :: "jstext option"
  u_content :: "jstext option"
  u_assignedProjects :: "jsarr option"
  u_assignedIssueTypes :: "jsarr option"
  u_active :: "bool option"

text \<open>Only the owner may edit when the global flag is off and the user is no admin.\<close>

definition mayEdit :: "env \<Rightarrow> store \<Rightarrow> template \<Rightarrow> bool" where
  "mayEdit e s existing =
     (if \<not> allowAllUsers (readGlobalConfig s) \<and> \<not> isAdminRequest e s
      then (if isOwner e existing then True else False)
      else True)"

text \<open>
  \<open>updateTemplate\<close> merges the supplied fields over the stored record and writes it
  back. It makes no call to \<open>enforceUniqueActiveTemplates\<close>.
\<close>

definition mergeUpdates :: "updatePayload \<Rightarrow> template \<Rightarrow> template" where
  "mergeUpdates p existing =
     (let t1 = (case u_name p of None \<Rightarrow> existing | Some n \<Rightarrow> existing\<lparr>name := trim n\<rparr>);
          t2 = (case u_summary p of None \<Rightarrow> t1 | Some x \<Rightarrow> t1\<lparr>summary := x\<rparr>);
          t3 = (case u_content p of None \<Rightarrow> t2 | Some x \<Rightarrow> t2\<lparr>content := x\<rparr>);
          t4 = (case u_assignedProjects p of
                  None \<Rightarrow> t3
                | Some v \<Rightarrow> t3\<lparr>assignedProjects := Some (Arr (arrayOrEmpty v))\<rparr>);
          t5 = (case u_assignedIssueTypes p of
                  None \<Rightarrow> t4
                | Some v \<Rightarrow> t4\<lparr>assignedIssueTypes := Some (Arr (arrayOrEmpty v))\<rparr>);
          t6 = (case u_active p of None \<Rightarrow> t5 | Some b \<Rightarrow> t5\<lparr>active := Some b\<rparr>)
      in t6)"

definition updateTemplate :: "env \<Rightarrow> updatePayload \<Rightarrow> store \<Rightarrow> error + (store \<times> template)" where
  "updateTemplate e p s =
     (case u_id p of
        None \<Rightarrow> Inl TemplateIdRequired
      | Some i \<Rightarrow>
          if i = [] then Inl TemplateIdRequired
          else (case templates s i of
            None \<Rightarrow> Inl TemplateNotFound
          | Some existing \<Rightarrow>
              if truthy (deleted existing) then Inl TemplateNotFound
              else if \<not> mayEdit e s existing then Inl NotAuthorizedUpdate
              else
                let merged = (mergeUpdates p existing)\<lparr>updatedAt := nowIso e\<rparr>
                in Inr (setTemplate i merged s, merged)))"

text \<open>
  \<open>deleteTemplate\<close>: a hard delete removes the record and its index entries; a soft
  delete marks the record deleted and inactive. A record already soft-deleted is still
  found.
\<close>

definition deleteTemplate :: "env \<Rightarrow> string option \<Rightarrow> bool \<Rightarrow> store \<Rightarrow> error + store" where
  "deleteTemplate e idp hard s =
     (case idp of
        None \<Rightarrow> Inl TemplateIdRequired
      | Some i \<Rightarrow>
          if i = [] then Inl TemplateIdRequired
          else (case templates s i of
            None \<Rightarrow> Inl TemplateNotFound
          | Some existing \<Rightarrow>
              if \<not> mayEdit e s existing then Inl NotAuthorizedDelete
              else if hard
              then Inr (s\<lparr>templates := (templates s)(i := None),
                          index := filter (\<lambda>tid. tid \<noteq> i) (index s)\<rparr>)
              else Inr (setTemplate i
                          (existing\<lparr>deleted := Some True, active := Some False,
                                    updatedAt := nowIso e\<rparr>) s)))"

text \<open>The suffix \<open>" (copy)"\<close> as code units.\<close>

definition copySuffix :: jstext where
  "copySuffix = [0x20, 0x28, 0x63, 0x6F, 0x70, 0x79, 0x29]"

text \<open>
  \<open>duplicateTemplate\<close> copies every field of the stored record, the \<open>active\<close> flag
  and the scope too, under a new id; it checks no permission and makes no call to
  \<open>enforceUniqueActiveTemplates\<close>.
\<close>

definition duplicateTemplate :: "env \<Rightarrow> string option \<Rightarrow> jstext option \<Rightarrow> store
    \<Rightarrow> error + (store \<times> template)" where
  "duplicateTemplate e idp newName s =
     (case idp of
        None \<Rightarrow> Inl TemplateIdRequired
      | Some i \<Rightarrow>
          if i = [] then Inl TemplateIdRequired
          else (case templates s i of
            None \<Rightarrow> Inl TemplateNotFound
          | Some existing \<Rightarrow>
              if truthy (deleted existing) then Inl TemplateNotFound
              else
                let newId = generateId e;
                    now = nowIso e;
                    clone = existing\<lparr>
                      id_tpl := newId,
                      name := (case newName of
                                 None \<Rightarrow> name existing @ copySuffix
                               | Some n \<Rightarrow> if n \<noteq> [] \<and> length (trim n) > 0 then trim n
                                          else name existing @ copySuffix),
                      owner := (case reqUser e of
                                  None \<Rightarrow> owner existing
                                | Some u \<Rightarrow> Some (accountId u)),
                      createdAt := now,
                      updatedAt := now,
                      deleted := Some False\<rparr>;
                    s1 = setTemplate newId clone s
                in Inr (s1\<lparr>index := newId # index s1\<rparr>, clone)))"

text \<open>
  The body of the matching loops of \<open>findApplicableTemplate\<close> and
  \<open>findMatchingTemplate\<close> (the two are the same text): \<open>projectMatch &&
  issueTypeMatch\<close> for a stored template.
\<close>

fun storedArray :: "jsarr option \<Rightarrow> string list" where
  "storedArray None = []"
| "storedArray (Some v) = arrayOrEmpty v"

definition projectMatch :: "template \<Rightarrow> string \<Rightarrow> bool" where
  "projectMatch tpl projectKey =
     (storedArray (assignedProjects tpl) = [] \<or>
      projectKey \<in> set (storedArray (assignedProjects tpl)))"

definition issueTypeMatch :: "template \<Rightarrow> string option \<Rightarrow> bool" where
  "issueTypeMatch tpl issueType =
     (storedArray (assignedIssueTypes tpl) = [] \<or>
      (case issueType of
         None \<Rightarrow> False
       | Some it \<Rightarrow> if it = [] then False else it \<in> set (storedArray (assignedIssueTypes tpl))))"

fun matchLoop :: "store \<Rightarrow> string \<Rightarrow> string option \<Rightarrow> string list \<Rightarrow> template option" where
  "matchLoop s projectKey issueType [] = None"
| "matchLoop s projectKey issueType (i # idx) =
     (case templates s i of
        None \<Rightarrow> matchLoop s projectKey issueType idx
      | Some tpl \<Rightarrow>
          if truthy (deleted tpl) then matchLoop s projectKey issueType idx
          else if \<not> truthy (active tpl) then matchLoop s projectKey issueType idx
          else if projectMatch tpl projectKey \<and> issueTypeMatch tpl issueType then Some tpl
          else matchLoop s projectKey issueType idx)"

definition findApplicableTemplate :: "string option \<Rightarrow> string option \<Rightarrow> store
    \<Rightarrow> error + template option" where
  "findApplicableTemplate projectKey issueType s =
     (case projectKey of
        None \<Rightarrow> Inl ProjectKeyRequired
      | Some pk \<Rightarrow>
          if pk = [] then Inl ProjectKeyRequired
          else Inr (matchLoop s pk issueType (index s)))"

section \<open>applytemplate.js\<close>

definition findMatchingTemplate :: "string option \<Rightarrow> string option \<Rightarrow> store
    \<Rightarrow> template option" where
  "findMatchingTemplate projectKey issueType s =
     (case projectKey of
        None \<Rightarrow> None
      | Some pk \<Rightarrow> if pk = [] then None else matchLoop s pk issueType (index s))"

record prefill =
  templateId :: string
  pf_summary :: "jstext option"
  pf_description :: "jstext option"
  applySummary :: bool
  applyDescription :: bool
  templateName :: jstext

text \<open>
  Lines 52 to 72 of \<open>getPrefillForCreateIssue\<close>, once a template has matched; an
  absent current value takes the default \<open>''\<close>.
\<close>

definition textFromTpl :: "jstext \<Rightarrow> jstext option" where
  "textFromTpl x = (if x \<noteq> [] \<and> length (trim x) > 0 then Some x else None)"

definition computePrefill :: "template \<Rightarrow> jstext option \<Rightarrow> jstext option \<Rightarrow> prefill" where
  "computePrefill tpl currentSummary currentDescription =
     (let summaryFromTpl = textFromTpl (summary tpl);
          descFromTpl = textFromTpl (content tpl)
      in \<lparr>templateId = id_tpl tpl,
          pf_summary = summaryFromTpl,
          pf_description = descFromTpl,
          applySummary =
            (summaryFromTpl \<noteq> None \<and> length (trim (ensureString currentSummary)) = 0),
          applyDescription =
            (descFromTpl \<noteq> None \<and> length (trim (ensureString currentDescription)) = 0),
          templateName = name tpl\<rparr>)"

definition getPrefillForCreateIssue :: "string option \<Rightarrow> string option \<Rightarrow> jstext option
    \<Rightarrow> jstext option \<Rightarrow> store \<Rightarrow> prefill option" where
  "getPrefillForCreateIssue projectKey issueType currentSummary currentDescription s =
     (if falsy projectKey then None
      else case findMatchingTemplate projectKey issueType s of
        None \<Rightarrow> None
      | Some tpl \<Rightarrow> Some (computePrefill tpl currentSummary currentDescription))"

section \<open>adminconfigpage.js\<close>

text \<open>\<open>setGlobalConfig\<close>: admins only; a list of admins that is not an array is ignored.\<close>

definition setGlobalConfig :: "env \<Rightarrow> bool option \<Rightarrow> jsarr option \<Rightarrow> store \<Rightarrow> error + store" where
  "setGlobalConfig e allowAllUsersP adminsP s =
     (if \<not> isAdminRequest e s then Inl NotAuthorizedGlobalConfig
      else
        let cfg = readGlobalConfig s;
            next1 = (case allowAllUsersP of None \<Rightarrow> cfg | Some b \<Rightarrow> cfg\<lparr>allowAllUsers := b\<rparr>);
            next2 = (case adminsP of Some (Arr xs) \<Rightarrow> next1\<lparr>admins := xs\<rparr> | _ \<Rightarrow> next1)
        in Inr (s\<lparr>globalConfig := Some next2\<rparr>))"

section \<open>index.js: the registered routes that write\<close>

datatype request =
    CreateTemplate createPayload
  | UpdateTemplate updatePayload
  | DeleteTemplate "string option" bool
  | DuplicateTemplate "string option" "jstext option"
  | AssignTemplateToProjects "string option" "jsarr option" "jsarr option"
  | AssignTemplateToIssueTypes "string option" "jsarr option" "jsarr option"
  | SetTemplateActive "string option" bool
  | SetGlobalConfig "bool option" "jsarr option"

text \<open>
  The store after a request. Every handler throws before its first write, so a request
  that fails leaves the store as it was.
\<close>

fun handle :: "env \<Rightarrow> request \<Rightarrow> store \<Rightarrow> store" where
  "handle e (CreateTemplate p) s =
     (case createTemplate e p s of Inl _ \<Rightarrow> s | Inr r \<Rightarrow> fst r)"
| "handle e (UpdateTemplate p) s =
     (case updateTemplate e p s of Inl _ \<Rightarrow> s | Inr r \<Rightarrow> fst r)"
| "handle e (DeleteTemplate i hard) s =
     (case deleteTemplate e i hard s of Inl _ \<Rightarrow> s | Inr s' \<Rightarrow> s')"
| "handle e (DuplicateTemplate i newName) s =
     (case duplicateTemplate e i newName s of Inl _ \<Rightarrow> s | Inr r \<Rightarrow> fst r)"
| "handle e (AssignTemplateToProjects i ps its) s =
     (case assignTemplateToProjects e i ps its s of Inl _ \<Rightarrow> s | Inr r \<Rightarrow> fst r)"
| "handle e (AssignTemplateToIssueTypes i its ps) s =
     (case assignTemplateToIssueTypes e i its ps s of Inl _ \<Rightarrow> s | Inr r \<Rightarrow> fst r)"
| "handle e (SetTemplateActive i a) s =
     (case setTemplateActive e i a s of Inl _ \<Rightarrow> s | Inr r \<Rightarrow> fst r)"
| "handle e (SetGlobalConfig a ads) s =
     (case setGlobalConfig e a ads s of Inl _ \<Rightarrow> s | Inr s' \<Rightarrow> s')"

fun run :: "(env \<times> request) list \<Rightarrow> store \<Rightarrow> store" where
  "run [] s = s"
| "run (er # rs) s = run rs (handle (fst er) (snd er) s)"

definition emptyStore :: store where
  "emptyStore = \<lparr>index = [], templates = Map.empty, globalConfig = None\<rparr>"

section \<open>Notions of the specification\<close>

text \<open>
  The stores the handlers can produce from the empty one, one request after another,
  when \<open>generateId\<close> never returns an id that is already in the index.
\<close>

inductive reachable :: "store \<Rightarrow> bool" where
  reachable_empty: "reachable emptyStore"
| reachable_handle: "reachable s \<Longrightarrow> generateId e \<notin> set (index s) \<Longrightarrow> reachable (handle e r s)"

text \<open>
  What holds of every such store: the index has no duplicates, every stored record is
  in the index, and a record's \<open>id\<close> field is the id it is stored under.
\<close>

definition wf_store :: "store \<Rightarrow> bool" where
  "wf_store s \<longleftrightarrow>
     distinct (index s) \<and>
     (\<forall>k t. templates s k = Some t \<longrightarrow> id_tpl t = k \<and> k \<in> set (index s))"

text \<open>
  \<open>competes t s k\<close>: the record stored under \<open>k\<close> is another template than \<open>t\<close>,
  not deleted, active, and its scope overlaps the scope of \<open>t\<close> on both axes. These
  are the templates \<open>enforceUniqueActiveTemplates\<close> is to deactivate.
\<close>

definition competes :: "template \<Rightarrow> store \<Rightarrow> string \<Rightarrow> bool" where
  "competes t s k =
     (k \<noteq> id_tpl t \<and>
      (case templates s k of
         None \<Rightarrow> False
       | Some other \<Rightarrow> \<not> truthy (deleted other) \<and> truthy (active other) \<and> scopesOverlap t other))"

definition deactivate :: "string \<Rightarrow> template \<Rightarrow> template" where
  "deactivate now other = other\<lparr>active := Some False, updatedAt := now\<rparr>"

definition isActiveIn :: "store \<Rightarrow> string \<Rightarrow> bool" where
  "isActiveIn s k = (case templates s k of None \<Rightarrow> False | Some t \<Rightarrow> truthy (active t))"

text \<open>
  Section 4.1 of the specification, \<open>scopeMatches\<close>: the template's project set is
  empty or contains the project key, and its issue type set is empty, or the issue
  type is non-empty and in it. The set of an axis is the stored array's elements (the
  empty set when the field is absent).
\<close>

definition scopeSet :: "jsarr option \<Rightarrow> string set" where
  "scopeSet v = set (storedArray v)"

definition scopeMatches :: "template \<Rightarrow> string \<Rightarrow> string option \<Rightarrow> bool" where
  "scopeMatches t projectKey issueType \<longleftrightarrow>
     (scopeSet (assignedProjects t) = {} \<or> projectKey \<in> scopeSet (assignedProjects t)) \<and>
     (scopeSet (assignedIssueTypes t) = {} \<or>
      (case issueType of
         None \<Rightarrow> False
       | Some it \<Rightarrow> it \<noteq> [] \<and> it \<in> scopeSet (assignedIssueTypes t)))"

definition eligible :: "string \<Rightarrow> string option \<Rightarrow> template \<Rightarrow> bool" where
  "eligible projectKey issueType t \<longleftrightarrow>
     \<not> truthy (deleted t) \<and> truthy (active t) \<and> scopeMatches t projectKey issueType"

text \<open>The stored records in index order.\<close>

definition indexed :: "store \<Rightarrow> template list" where
  "indexed s = List.map_filter (templates s) (index s)"

text \<open>
  The ids, in index order, of the active, non-deleted templates whose scope covers a
  project and issue type. The invariant of section 3 says this list never has more than
  one element.
\<close>

definition activeCovering :: "store \<Rightarrow> string \<Rightarrow> string \<Rightarrow> string list" where
  "activeCovering s projectKey issueType =
     map id_tpl (filter (eligible projectKey (Some issueType)) (indexed s))"

text \<open>Blank text: nothing but white space.\<close>

definition blank :: "jstext \<Rightarrow> bool" where
  "blank x = list_all isWhiteSpace x"

text \<open>A call fails with an error of the given kind.\<close>

definition failsWith :: "errorKind \<Rightarrow> error + 'a \<Rightarrow> bool" where
  "failsWith k r = (case r of Inl err \<Rightarrow> kindOf err = k | Inr x \<Rightarrow> False)"

text \<open>The id is not in the store, or the record under it is soft-deleted.\<close>

definition unknownOrDeleted :: "store \<Rightarrow> string \<Rightarrow> bool" where
  "unknownOrDeleted s i = (case templates s i of None \<Rightarrow> True | Some t \<Rightarrow> truthy (deleted t))"

definition isArray :: "jsarr option \<Rightarrow> bool" where
  "isArray v = (case v of Some (Arr xs) \<Rightarrow> True | _ \<Rightarrow> False)"

section \<open>Sample data\<close>

text \<open>
  Three templates of one owner: \<open>A\<close> with no scope (all projects, all issue types)
  and inactive, \<open>B\<close> for project \<open>PROJ\<close> and \<open>C\<close> for project \<open>OTHER\<close>, both
  active. \<open>C\<close> is the newest and so the first of the index.
\<close>

definition sampleTpl :: "string \<Rightarrow> jsarr option \<Rightarrow> bool option \<Rightarrow> template" where
  "sampleTpl i ps a =
     \<lparr>id_tpl = i, name = [0x54], summary = [0x53], content = [0x43], projects = [],
      assignedProjects = ps, assignedIssueTypes = None, active = a, deleted = None,
      owner = Some ''alice'', createdAt = ''t0'', updatedAt = ''t0''\<rparr>"

definition sampleStore :: store where
  "sampleStore =
     \<lparr>index = [''C'', ''B'', ''A''],
      templates = [''A'' \<mapsto> sampleTpl ''A'' None None,
                   ''B'' \<mapsto> sampleTpl ''B'' (Some (Arr [''PROJ''])) (Some True),
                   ''C'' \<mapsto> sampleTpl ''C'' (Some (Arr [''OTHER''])) (Some True)],
      globalConfig = None\<rparr>"

text \<open>The owner, a product admin, and a user who is neither owner nor admin.\<close>

definition aliceEnv :: env where
  "aliceEnv =
     \<lparr>reqUser = Some \<lparr>accountId = ''alice'', isProductAdmin = False, isAdmin = False\<rparr>,
      nowIso = ''t1'', generateId = ''D'', jiraProjectAdmin = (\<lambda>p. False)\<rparr>"

definition adminEnv :: env where
  "adminEnv =
     \<lparr>reqUser = Some \<lparr>accountId = ''root'', isProductAdmin = True, isAdmin = False\<rparr>,
      nowIso = ''t1'', generateId = ''D'', jiraProjectAdmin = (\<lambda>p. False)\<rparr>"

definition malloryEnv :: env where
  "malloryEnv =
     \<lparr>reqUser = Some \<lparr>accountId = ''mallory'', isProductAdmin = False, isAdmin = False\<rparr>,
      nowIso = ''t1'', generateId = ''D'', jiraProjectAdmin = (\<lambda>p. False)\<rparr>"

text \<open>
  A session from the empty store by a product admin: two templates \<open>A\<close> and \<open>B\<close>
  are created with no scope, \<open>A\<close> is activated through \<open>setTemplateActive\<close>, then
  \<open>B\<close> through \<open>updateTemplate\<close>.
\<close>

definition namedPayload :: createPayload where
  "namedPayload = \<lparr>c_name = Some [0x54], c_summary = None, c_content = None, c_projects = None\<rparr>"

definition activatePayload :: "string \<Rightarrow> updatePayload" where
  "activatePayload i =
     \<lparr>u_id = Some i, u_name = None, u_summary = None, u_content = None,
      u_assignedProjects = None, u_assignedIssueTypes = None, u_active = Some True\<rparr>"

definition setupSession :: "(env \<times> request) list" where
  "setupSession =
     [(adminEnv\<lparr>generateId := ''A''\<rparr>, CreateTemplate namedPayload),
      (adminEnv\<lparr>generateId := ''B''\<rparr>, CreateTemplate namedPayload),
      (adminEnv, SetTemplateActive (Some ''A'') True)]"

definition updateSession :: "(env \<times> request) list" where
  "updateSession = setupSession @ [(adminEnv, UpdateTemplate (activatePayload ''B''))]"

definition duplicateSession :: "(env \<times> request) list" where
  "duplicateSession =
     setupSession @ [(adminEnv\<lparr>generateId := ''C''\<rparr>, DuplicateTemplate (Some ''A'') None)]"

section \<open>Properties of the scope matcher\<close>

lemma setsOverlapArr_sym: "setsOverlapArr x y = setsOverlapArr y x"
  by (cases x; cases y) (auto simp: list_ex_iff)

text \<open>
  C7. \<open>setsOverlap\<close> is symmetric, and on two arrays of strings it is true when either
  is empty (a wildcard overlaps anything, another wildcard too) and otherwise exactly
  when the two share an element.
\<close>

theorem setsOverlap_symmetric_wildcard:
  "setsOverlap x y = setsOverlap y x \<and>
   setsOverlap (Some (Arr [])) (Some (Arr b)) \<and>
   setsOverlap (Some (Arr a)) (Some (Arr [])) \<and>
   setsOverlap (Some (Arr a)) (Some (Arr b)) = (a = [] \<or> b = [] \<or> set a \<inter> set b \<noteq> {})"
  by (auto simp: setsOverlap_def setsOverlapArr_sym[of "orEmpty x"] list_ex_iff)

theorem setsOverlap_symmetric_wildcard_witness:
  "setsOverlap (Some (Arr [''A'', ''B''])) (Some (Arr [''C'', ''B''])) \<and>
   \<not> setsOverlap (Some (Arr [''A''])) (Some (Arr [''C''])) \<and>
   setsOverlap (Some (Arr [])) (Some (Arr [''C'']))"
  using setsOverlap_symmetric_wildcard [of "Some (Arr [''A'', ''B''])" "Some (Arr [''C'', ''B''])" "[''C'']" "[''A'']"]
    setsOverlap_symmetric_wildcard [of None None "[''C'', ''B'']" "[''A'', ''B'']"]
  by simp

text \<open>Unfolding rules for evaluating the handlers on the sample data.\<close>

lemmas sample_defs = sampleStore_def sampleTpl_def aliceEnv_def adminEnv_def malloryEnv_def
  emptyStore_def namedPayload_def activatePayload_def
  setupSession_def updateSession_def duplicateSession_def

lemmas auth_defs = readGlobalConfig_def defaultConfig_def isAdminRequest_def isOwner_def
  mayAssignProjects_def mayAssignIssueTypes_def mayEdit_def isProjectAdmin_def

lemmas enforce_defs = enforceIfActive_def enforceUniqueActiveTemplates_def setTemplate_def
  scopesOverlap_def setsOverlap_def

lemmas text_defs = trim_def isWhiteSpace_def validateCreatePayload_def

section \<open>The enforcement loop\<close>

lemma competes_setTemplate_other:
  "k \<noteq> i \<Longrightarrow> competes t (setTemplate i x s) k = competes t s k"
  by (simp add: competes_def setTemplate_def)

lemma competes_deactivated:
  "\<not> competes t (setTemplate i (other\<lparr>active := Some False, updatedAt := now\<rparr>) s) i"
  by (simp add: competes_def setTemplate_def)

lemma enforceLoop_step:
  "enforceLoop now t (i # idx) s acc =
     (if competes t s i
      then enforceLoop now t idx (setTemplate i (deactivate now (the (templates s i))) s) (acc @ [i])
      else enforceLoop now t idx s acc)"
  by (auto simp: competes_def deactivate_def split: option.splits)

lemma enforceLoop_index: "index (snd (enforceLoop now t idx s acc)) = index s"
  by (induction idx arbitrary: s acc) (simp_all add: enforceLoop_step setTemplate_def del: enforceLoop.simps(2))

lemma enforceLoop_globalConfig: "globalConfig (snd (enforceLoop now t idx s acc)) = globalConfig s"
  by (induction idx arbitrary: s acc) (simp_all add: enforceLoop_step setTemplate_def del: enforceLoop.simps(2))

lemma enforceLoop_templates:
  "templates (snd (enforceLoop now t idx s acc)) k =
     (if k \<in> set idx \<and> competes t s k
      then map_option (deactivate now) (templates s k)
      else templates s k)"
proof (induction idx arbitrary: s acc)
  case Nil
  show ?case by simp
next
  case (Cons i idx)
  show ?case
  proof (cases "competes t s i")
    case False
    then show ?thesis
      using Cons.IH [of s acc] by (auto simp: enforceLoop_step simp del: enforceLoop.simps(2))
  next
    case True
    then obtain other where o: "templates s i = Some other"
      by (auto simp: competes_def split: option.splits)
    let ?s1 = "setTemplate i (deactivate now other) s"
    have step: "enforceLoop now t (i # idx) s acc = enforceLoop now t idx ?s1 (acc @ [i])"
      using True o by (simp add: enforceLoop_step del: enforceLoop.simps(2))
    show ?thesis
    proof (cases "k = i")
      case True
      have "\<not> competes t ?s1 i"
        by (simp add: deactivate_def competes_deactivated)
      then show ?thesis
        using \<open>k = i\<close> \<open>competes t s i\<close> o Cons.IH [of ?s1 "acc @ [i]"] step
        by (simp add: setTemplate_def del: enforceLoop.simps(2))
    next
      case False
      then show ?thesis
        using Cons.IH [of ?s1 "acc @ [i]"] step competes_setTemplate_other [of k i t]
        by (simp add: setTemplate_def del: enforceLoop.simps(2))
    qed
  qed
qed

lemma enforceLoop_fst:
  "distinct idx \<Longrightarrow> fst (enforceLoop now t idx s acc) = acc @ filter (competes t s) idx"
proof (induction idx arbitrary: s acc)
  case Nil
  show ?case by simp
next
  case (Cons i idx)
  have "filter (competes t (setTemplate i x s)) idx = filter (competes t s) idx" for x
  proof (rule filter_cong)
    fix k assume "k \<in> set idx"
    with Cons.prems have "k \<noteq> i" by auto
    then show "competes t (setTemplate i x s) k = competes t s k"
      by (rule competes_setTemplate_other)
  qed simp
  then show ?case
    using Cons by (simp add: enforceLoop_step del: enforceLoop.simps(2))
qed

lemma enforceLoop_none:
  "\<forall>k\<in>set idx. \<not> competes t s k \<Longrightarrow> enforceLoop now t idx s acc = (acc, s)"
  by (induction idx arbitrary: s acc) (simp_all add: enforceLoop_step del: enforceLoop.simps(2))

lemma enforceLoop_settled:
  "k \<in> set idx \<Longrightarrow> \<not> competes t (snd (enforceLoop now t idx s acc)) k"
  by (auto simp: competes_def enforceLoop_templates deactivate_def split: option.splits)

lemma enforceIfActive_templates:
  "templates (snd (enforceIfActive now t s)) k =
     (if truthy (active t) \<and> k \<in> set (index s) \<and> competes t s k
      then map_option (deactivate now) (templates s k)
      else templates s k)"
  by (simp add: enforceIfActive_def enforceUniqueActiveTemplates_def enforceLoop_templates)

lemma enforceIfActive_index: "index (snd (enforceIfActive now t s)) = index s"
  by (simp add: enforceIfActive_def enforceUniqueActiveTemplates_def enforceLoop_index)

lemma enforceIfActive_globalConfig: "globalConfig (snd (enforceIfActive now t s)) = globalConfig s"
  by (simp add: enforceIfActive_def enforceUniqueActiveTemplates_def enforceLoop_globalConfig)

text \<open>
  C6. Running \<open>enforceUniqueActiveTemplates\<close> for a template and running it again
  on the store the first run left returns the empty list the second time.
\<close>

theorem enforce_twice:
  "fst (enforceUniqueActiveTemplates now2 t (snd (enforceUniqueActiveTemplates now1 t s))) = []"
proof (cases "truthy (active t)")
  case False
  then show ?thesis by (simp add: enforceUniqueActiveTemplates_def)
next
  case True
  let ?s1 = "snd (enforceLoop now1 t (index s) s [])"
  have "\<forall>k\<in>set (index ?s1). \<not> competes t ?s1 k"
    by (simp add: enforceLoop_index enforceLoop_settled)
  then have "enforceLoop now2 t (index ?s1) ?s1 [] = ([], ?s1)"
    by (rule enforceLoop_none)
  then show ?thesis
    using True by (simp add: enforceUniqueActiveTemplates_def)
qed

theorem enforce_twice_witness:
  "fst (enforceUniqueActiveTemplates ''t1'' (sampleTpl ''A'' None (Some True))
          (setTemplate ''A'' (sampleTpl ''A'' None (Some True)) sampleStore)) = [''C'', ''B''] \<and>
   fst (enforceUniqueActiveTemplates ''t2'' (sampleTpl ''A'' None (Some True))
          (snd (enforceUniqueActiveTemplates ''t1'' (sampleTpl ''A'' None (Some True))
             (setTemplate ''A'' (sampleTpl ''A'' None (Some True)) sampleStore)))) = []"
  using enforce_twice [of "''t2''" "sampleTpl ''A'' None (Some True)" "''t1''"
      "setTemplate ''A'' (sampleTpl ''A'' None (Some True)) sampleStore"]
  by (simp add: enforceUniqueActiveTemplates_def setTemplate_def scopesOverlap_def
      setsOverlap_def sampleTpl_def sampleStore_def)

section \<open>Well-formed stores\<close>

lemma wf_setTemplate:
  "wf_store s \<Longrightarrow> id_tpl t = i \<Longrightarrow> i \<in> set (index s) \<Longrightarrow> wf_store (setTemplate i t s)"
  by (auto simp: wf_store_def setTemplate_def)

lemma wf_enforceIfActive:
  assumes "wf_store s"
  shows "wf_store (snd (enforceIfActive now t s))"
  using assms
  by (auto simp: wf_store_def enforceIfActive_templates enforceIfActive_index deactivate_def
      split: if_splits)

lemma wf_stored_id: "wf_store s \<Longrightarrow> templates s i = Some t \<Longrightarrow> id_tpl t = i \<and> i \<in> set (index s)"
  by (simp add: wf_store_def)

lemma wf_add:
  assumes "wf_store s" "i \<notin> set (index s)" "id_tpl t = i"
  shows "wf_store ((setTemplate i t s)\<lparr>index := i # index (setTemplate i t s)\<rparr>)"
  using assms by (auto simp: wf_store_def setTemplate_def)

lemma wf_createTemplate:
  assumes "wf_store s" "generateId e \<notin> set (index s)" "createTemplate e p s = Inr (s', t)"
  shows "wf_store s'"
proof -
  from assms(3) have "id_tpl t = generateId e"
    and "s' = (setTemplate (generateId e) t s)\<lparr>index := generateId e # index (setTemplate (generateId e) t s)\<rparr>"
    by (auto simp: createTemplate_def Let_def split: if_splits)
  with wf_add [OF assms(1,2)] show ?thesis by simp
qed

lemma wf_duplicateTemplate:
  assumes "wf_store s" "generateId e \<notin> set (index s)" "duplicateTemplate e i n s = Inr (s', t)"
  shows "wf_store s'"
proof -
  from assms(3) have "id_tpl t = generateId e"
    and "s' = (setTemplate (generateId e) t s)\<lparr>index := generateId e # index (setTemplate (generateId e) t s)\<rparr>"
    by (auto simp: duplicateTemplate_def Let_def split: if_splits option.splits)
  with wf_add [OF assms(1,2)] show ?thesis by simp
qed

lemma mergeUpdates_id: "id_tpl (mergeUpdates p t) = id_tpl t"
  by (simp add: mergeUpdates_def Let_def split: option.splits)

lemma wf_updateTemplate:
  assumes "wf_store s" "updateTemplate e p s = Inr (s', t)"
  shows "wf_store s'"
  using assms
  by (auto simp: updateTemplate_def Let_def mergeUpdates_id
      split: if_splits option.splits dest: wf_stored_id intro!: wf_setTemplate)

lemma wf_deleteTemplate:
  assumes "wf_store s" "deleteTemplate e i hard s = Inr s'"
  shows "wf_store s'"
proof -
  from assms(2) obtain k t0 where k: "i = Some k" "templates s k = Some t0"
    and s': "s' = (if hard then s\<lparr>templates := (templates s)(k := None),
                                   index := filter (\<lambda>tid. tid \<noteq> k) (index s)\<rparr>
                   else setTemplate k (t0\<lparr>deleted := Some True, active := Some False,
                                          updatedAt := nowIso e\<rparr>) s)"
    by (auto simp: deleteTemplate_def split: if_splits option.splits)
  show ?thesis
  proof (cases hard)
    case True
    with s' assms(1) show ?thesis by (auto simp: wf_store_def)
  next
    case False
    with s' wf_stored_id [OF assms(1) k(2)] assms(1) show ?thesis
      by (simp add: wf_setTemplate)
  qed
qed

lemma wf_assignTemplateToProjects:
  assumes "wf_store s" "assignTemplateToProjects e i ps its s = Inr (s', r)"
  shows "wf_store s'"
  using assms
  by (auto simp: assignTemplateToProjects_def Let_def
      split: if_splits option.splits jsarr.splits dest: wf_stored_id
      intro!: wf_enforceIfActive wf_setTemplate)

lemma wf_assignTemplateToIssueTypes:
  assumes "wf_store s" "assignTemplateToIssueTypes e i its ps s = Inr (s', r)"
  shows "wf_store s'"
  using assms
  by (auto simp: assignTemplateToIssueTypes_def Let_def
      split: if_splits option.splits jsarr.splits dest: wf_stored_id
      intro!: wf_enforceIfActive wf_setTemplate)

lemma wf_setTemplateActive:
  assumes "wf_store s" "setTemplateActive e i a s = Inr (s', r)"
  shows "wf_store s'"
  using assms
  by (auto simp: setTemplateActive_def Let_def
      split: if_splits option.splits dest: wf_stored_id
      intro!: wf_enforceIfActive wf_setTemplate)

lemma wf_setGlobalConfig:
  assumes "wf_store s" "setGlobalConfig e a ads s = Inr s'"
  shows "wf_store s'"
  using assms
  by (auto simp: setGlobalConfig_def Let_def wf_store_def split: if_splits)

lemma wf_handle:
  assumes "wf_store s" "generateId e \<notin> set (index s)"
  shows "wf_store (handle e r s)"
proof (cases r)
  case (CreateTemplate p)
  with assms show ?thesis
    by (cases "createTemplate e p s") (auto intro: wf_createTemplate)
next
  case (UpdateTemplate p)
  with assms show ?thesis
    by (cases "updateTemplate e p s") (auto intro: wf_updateTemplate)
next
  case (DeleteTemplate i hard)
  with assms show ?thesis
    by (cases "deleteTemplate e i hard s") (auto intro: wf_deleteTemplate)
next
  case (DuplicateTemplate i n)
  with assms show ?thesis
    by (cases "duplicateTemplate e i n s") (auto intro: wf_duplicateTemplate)
next
  case (AssignTemplateToProjects i ps its)
  with assms show ?thesis
    by (cases "assignTemplateToProjects e i ps its s") (auto intro: wf_assignTemplateToProjects)
next
  case (AssignTemplateToIssueTypes i its ps)
  with assms show ?thesis
    by (cases "assignTemplateToIssueTypes e i its ps s") (auto intro: wf_assignTemplateToIssueTypes)
next
  case (SetTemplateActive i a)
  with assms show ?thesis
    by (cases "setTemplateActive e i a s") (auto intro: wf_setTemplateActive)
next
  case (SetGlobalConfig a ads)
  with assms show ?thesis
    by (cases "setGlobalConfig e a ads s") (auto intro: wf_setGlobalConfig)
qed

text \<open>
  Every store the handlers produce from the empty one is well-formed, as long as
  \<open>generateId\<close> returns ids that are not in the index yet.
\<close>

lemma reachable_wf_store: "reachable s \<Longrightarrow> wf_store s"
proof (induction rule: reachable.induct)
  case reachable_empty
  show ?case by (simp add: wf_store_def emptyStore_def)
next
  case (reachable_handle s e r)
  then show ?case by (simp add: wf_handle)
qed

section \<open>Activation\<close>

lemma setTemplateActive_InrD:
  assumes "setTemplateActive e (Some i) a s = Inr (s', tpl, d)"
  obtains t0 where "templates s i = Some t0" "\<not> truthy (deleted t0)" "i \<noteq> []"
    "tpl = t0\<lparr>active := Some a, updatedAt := nowIso e\<rparr>"
    "(d, s') = enforceIfActive (nowIso e) tpl (setTemplate i tpl s)"
  using assms
  by (auto simp: setTemplateActive_def Let_def split: if_splits option.splits)

lemma setTemplateActive_succeeds:
  assumes "i \<noteq> []" "templates s i = Some t0" "\<not> truthy (deleted t0)"
  shows "\<exists>s' d. setTemplateActive e (Some i) a s =
           Inr (s', t0\<lparr>active := Some a, updatedAt := nowIso e\<rparr>, d)"
  using assms by (simp add: setTemplateActive_def Let_def)

lemma competes_self_stored:
  "id_tpl t = i \<Longrightarrow> competes t (setTemplate i x s) k = competes t s k"
  by (cases "k = i") (simp_all add: competes_setTemplate_other, simp add: competes_def)

text \<open>
  C2. On a well-formed store (every reachable store is one, \<open>reachable_wf_store\<close>),
  when \<open>setTemplateActive\<close> with \<open>active = true\<close> returns, no other
  non-deleted template whose scope overlaps the activated one's on both axes is active,
  and the list returned holds exactly the ids of the templates that were active before
  and are not after, in index order; the activated template's id is not among them.
\<close>

theorem setTemplateActive_deactivates_competitors:
  assumes wf: "wf_store s"
    and res: "setTemplateActive e (Some i) True s = Inr (s', tpl, deactivated)"
  shows "(\<forall>k other. k \<noteq> i \<and> templates s' k = Some other \<and> \<not> truthy (deleted other) \<and>
            scopesOverlap tpl other \<longrightarrow> \<not> truthy (active other)) \<and>
         deactivated = filter (competes tpl s) (index s) \<and>
         deactivated = filter (\<lambda>k. isActiveIn s k \<and> \<not> isActiveIn s' k) (index s) \<and>
         i \<notin> set deactivated"
proof -
  from res obtain t0 where t0: "templates s i = Some t0"
    and tpl: "tpl = t0\<lparr>active := Some True, updatedAt := nowIso e\<rparr>"
    and run: "(deactivated, s') = enforceIfActive (nowIso e) tpl (setTemplate i tpl s)"
    by (rule setTemplateActive_InrD)
  let ?s1 = "setTemplate i tpl s"
  let ?now = "nowIso e"
  have idt: "id_tpl tpl = i"
    using wf t0 tpl by (auto simp: wf_store_def)
  have act: "truthy (active tpl)"
    using tpl by simp
  have loop: "enforceLoop ?now tpl (index s) ?s1 [] = (deactivated, s')"
    using run act by (simp add: enforceIfActive_def enforceUniqueActiveTemplates_def setTemplate_def)
  have comp: "competes tpl ?s1 = competes tpl s"
    using idt by (intro ext competes_self_stored)
  have dist: "distinct (index s)"
    using wf by (simp add: wf_store_def)
  have d: "deactivated = filter (competes tpl s) (index s)"
    using enforceLoop_fst [OF dist, of ?now tpl ?s1 "[]"] loop comp by simp
  have tmpl: "templates s' k =
      (if k \<in> set (index s) \<and> competes tpl s k
       then map_option (deactivate ?now) (templates ?s1 k) else templates ?s1 k)" for k
    using enforceLoop_templates [of ?now tpl "index s" ?s1 "[]" k] loop comp by simp
  have notself: "\<not> competes tpl s i"
    using idt by (simp add: competes_def)
  have p1: "\<not> truthy (active other)"
    if "k \<noteq> i" "templates s' k = Some other" "\<not> truthy (deleted other)" "scopesOverlap tpl other"
    for k other
  proof (cases "k \<in> set (index s) \<and> competes tpl s k")
    case True
    then show ?thesis
      using that tmpl [of k] by (auto simp: deactivate_def)
  next
    case False
    with that tmpl [of k] have sk: "templates s k = Some other"
      by (simp add: setTemplate_def)
    with wf have "k \<in> set (index s)"
      by (auto simp: wf_store_def)
    with False have "\<not> competes tpl s k" by simp
    with sk that idt show ?thesis
      by (simp add: competes_def)
  qed
  have p3: "(isActiveIn s k \<and> \<not> isActiveIn s' k) = competes tpl s k" if "k \<in> set (index s)" for k
  proof (cases "competes tpl s k")
    case True
    then show ?thesis
      using that tmpl [of k] notself
      by (auto simp: isActiveIn_def competes_def deactivate_def setTemplate_def split: option.splits)
  next
    case False
    then show ?thesis
      using tmpl [of k] act
      by (auto simp: isActiveIn_def setTemplate_def split: option.splits)
  qed
  have "filter (\<lambda>k. isActiveIn s k \<and> \<not> isActiveIn s' k) (index s) = filter (competes tpl s) (index s)"
    by (rule filter_cong) (simp_all add: p3)
  with d p1 notself show ?thesis by auto
qed

theorem setTemplateActive_deactivates_competitors_witness:
  "wf_store sampleStore \<and>
   (case setTemplateActive aliceEnv (Some ''A'') True sampleStore of
      Inl err \<Rightarrow> False
    | Inr r \<Rightarrow> snd (snd r) = [''C'', ''B''] \<and>
        snd (snd r) = filter (\<lambda>k. isActiveIn sampleStore k \<and> \<not> isActiveIn (fst r) k) (index sampleStore) \<and>
        isActiveIn (fst r) ''A'' \<and> \<not> isActiveIn (fst r) ''B'' \<and> \<not> isActiveIn (fst r) ''C'')"
proof -
  have wf: "wf_store sampleStore"
    by (simp add: wf_store_def sampleStore_def sampleTpl_def)
  obtain s' tpl d where res: "setTemplateActive aliceEnv (Some ''A'') True sampleStore = Inr (s', tpl, d)"
    by (simp add: setTemplateActive_def sampleStore_def sampleTpl_def Let_def)
  have d: "d = [''C'', ''B'']" and act: "isActiveIn s' ''A''" "\<not> isActiveIn s' ''B''" "\<not> isActiveIn s' ''C''"
    using res
    by (auto simp: setTemplateActive_def sampleStore_def sampleTpl_def Let_def aliceEnv_def
        enforceIfActive_def enforceUniqueActiveTemplates_def setTemplate_def scopesOverlap_def
        setsOverlap_def isActiveIn_def)
  have c: "d = filter (\<lambda>k. isActiveIn sampleStore k \<and> \<not> isActiveIn s' k) (index sampleStore)"
    using setTemplateActive_deactivates_competitors [OF wf res] by blast
  have main: "wf_store sampleStore \<and>
    (d = [''C'', ''B''] \<and>
     d = filter (\<lambda>k. isActiveIn sampleStore k \<and> \<not> isActiveIn s' k) (index sampleStore) \<and>
     isActiveIn s' ''A'' \<and> \<not> isActiveIn s' ''B'' \<and> \<not> isActiveIn s' ''C'')"
    using wf d c act by (intro conjI)
  show ?thesis
    unfolding res sum.case fst_conv snd_conv by (rule main)
qed


section \<open>Assignment round trip\<close>

lemma enforceIfActive_scope:
  assumes "templates s k = Some x"
  shows "\<exists>y. templates (snd (enforceIfActive now t s)) k = Some y \<and>
           assignedProjects y = assignedProjects x \<and>
           assignedIssueTypes y = assignedIssueTypes x \<and>
           deleted y = deleted x \<and> id_tpl y = id_tpl x"
  using assms by (simp add: enforceIfActive_templates deactivate_def)

lemma getTemplateAssignments_stored:
  assumes "templates s i = Some y" "\<not> truthy (deleted y)" "i \<noteq> []"
  shows "getTemplateAssignments (Some i) s =
           Inr (orEmpty (assignedProjects y), orEmpty (assignedIssueTypes y))"
  using assms by (simp add: getTemplateAssignments_def)

lemma assignTemplateToProjects_then_get:
  assumes res: "assignTemplateToProjects e (Some i) (Some (Arr ps)) itsP s = Inr (s', r)"
    and t0: "templates s i = Some t0"
  shows "getTemplateAssignments (Some i) s' =
           Inr (Arr ps, case itsP of None \<Rightarrow> orEmpty (assignedIssueTypes t0)
                                   | Some v \<Rightarrow> Arr (arrayOrEmpty v))"
proof -
  define tpl3 where "tpl3 =
    (case itsP of None \<Rightarrow> t0\<lparr>assignedProjects := Some (Arr ps)\<rparr>
     | Some v \<Rightarrow> t0\<lparr>assignedProjects := Some (Arr ps),
                     assignedIssueTypes := Some (Arr (arrayOrEmpty v))\<rparr>)\<lparr>updatedAt := nowIso e\<rparr>"
  from res t0 have ne: "i \<noteq> []" and nd: "\<not> truthy (deleted t0)"
    and s': "s' = snd (enforceIfActive (nowIso e) tpl3 (setTemplate i tpl3 s))"
    by (auto simp: assignTemplateToProjects_def Let_def tpl3_def split: if_splits option.splits)
  have "templates (setTemplate i tpl3 s) i = Some tpl3"
    by (simp add: setTemplate_def)
  from enforceIfActive_scope [OF this, of "nowIso e" tpl3] s'
  obtain y where y: "templates s' i = Some y" "assignedProjects y = assignedProjects tpl3"
    "assignedIssueTypes y = assignedIssueTypes tpl3" "deleted y = deleted tpl3"
    by auto
  have "\<not> truthy (deleted y)"
    using y nd by (simp add: tpl3_def split: option.splits)
  from getTemplateAssignments_stored [OF y(1) this ne] y show ?thesis
    by (simp add: tpl3_def split: option.splits)
qed

lemma assignTemplateToIssueTypes_then_get:
  assumes res: "assignTemplateToIssueTypes e (Some i) (Some (Arr its)) psP s = Inr (s', r)"
    and t0: "templates s i = Some t0"
  shows "getTemplateAssignments (Some i) s' =
           Inr (case psP of None \<Rightarrow> orEmpty (assignedProjects t0)
                          | Some v \<Rightarrow> Arr (arrayOrEmpty v), Arr its)"
proof -
  define tpl3 where "tpl3 =
    (case psP of None \<Rightarrow> t0\<lparr>assignedIssueTypes := Some (Arr its)\<rparr>
     | Some v \<Rightarrow> t0\<lparr>assignedIssueTypes := Some (Arr its),
                     assignedProjects := Some (Arr (arrayOrEmpty v))\<rparr>)\<lparr>updatedAt := nowIso e\<rparr>"
  from res t0 have ne: "i \<noteq> []" and nd: "\<not> truthy (deleted t0)"
    and s': "s' = snd (enforceIfActive (nowIso e) tpl3 (setTemplate i tpl3 s))"
    by (auto simp: assignTemplateToIssueTypes_def Let_def tpl3_def split: if_splits option.splits)
  have "templates (setTemplate i tpl3 s) i = Some tpl3"
    by (simp add: setTemplate_def)
  from enforceIfActive_scope [OF this, of "nowIso e" tpl3] s'
  obtain y where y: "templates s' i = Some y" "assignedProjects y = assignedProjects tpl3"
    "assignedIssueTypes y = assignedIssueTypes tpl3" "deleted y = deleted tpl3"
    by auto
  have "\<not> truthy (deleted y)"
    using y nd by (simp add: tpl3_def split: option.splits)
  from getTemplateAssignments_stored [OF y(1) this ne] y show ?thesis
    by (simp add: tpl3_def split: option.splits)
qed

lemma assignTemplateToProjects_found:
  "assignTemplateToProjects e (Some i) psP itsP s = Inr x \<Longrightarrow> \<exists>t0. templates s i = Some t0"
  by (auto simp: assignTemplateToProjects_def split: if_splits option.splits jsarr.splits)

lemma assignTemplateToIssueTypes_found:
  "assignTemplateToIssueTypes e (Some i) itsP psP s = Inr x \<Longrightarrow> \<exists>t0. templates s i = Some t0"
  by (auto simp: assignTemplateToIssueTypes_def split: if_splits option.splits jsarr.splits)

text \<open>
  C9. After \<open>assignTemplateToProjects\<close> or \<open>assignTemplateToIssueTypes\<close> has
  written a project array and an issue type array to a template,
  \<open>getTemplateAssignments\<close> on the same id returns exactly these two arrays.
\<close>

theorem assign_then_getAssignments:
  "(assignTemplateToProjects e (Some i) (Some (Arr ps)) (Some (Arr its)) s = Inr (s1, r1) \<longrightarrow>
      getTemplateAssignments (Some i) s1 = Inr (Arr ps, Arr its)) \<and>
   (assignTemplateToIssueTypes e (Some i) (Some (Arr its)) (Some (Arr ps)) s = Inr (s2, r2) \<longrightarrow>
      getTemplateAssignments (Some i) s2 = Inr (Arr ps, Arr its))"
proof (intro conjI impI)
  assume a: "assignTemplateToProjects e (Some i) (Some (Arr ps)) (Some (Arr its)) s = Inr (s1, r1)"
  then obtain t0 where "templates s i = Some t0"
    using assignTemplateToProjects_found by blast
  from assignTemplateToProjects_then_get [OF a this]
  show "getTemplateAssignments (Some i) s1 = Inr (Arr ps, Arr its)" by simp
next
  assume a: "assignTemplateToIssueTypes e (Some i) (Some (Arr its)) (Some (Arr ps)) s = Inr (s2, r2)"
  then obtain t0 where "templates s i = Some t0"
    using assignTemplateToIssueTypes_found by blast
  from assignTemplateToIssueTypes_then_get [OF a this]
  show "getTemplateAssignments (Some i) s2 = Inr (Arr ps, Arr its)" by simp
qed

theorem assign_then_getAssignments_witness:
  "(case assignTemplateToProjects aliceEnv (Some ''B'') (Some (Arr [''OTHER'', ''X''])) (Some (Arr [''Bug''])) sampleStore of
      Inl err \<Rightarrow> False
    | Inr r \<Rightarrow> getTemplateAssignments (Some ''B'') (fst r) = Inr (Arr [''OTHER'', ''X''], Arr [''Bug'']) \<and>
        snd (snd r) = [''C''])"
proof -
  obtain s1 r1 where res: "assignTemplateToProjects aliceEnv (Some ''B'') (Some (Arr [''OTHER'', ''X'']))
      (Some (Arr [''Bug''])) sampleStore = Inr (s1, r1)"
    by (simp add: assignTemplateToProjects_def Let_def sample_defs auth_defs)
  have d: "snd r1 = [''C'']"
    using res
    by (auto simp: assignTemplateToProjects_def Let_def sample_defs auth_defs enforce_defs)
  have g: "getTemplateAssignments (Some ''B'') s1 = Inr (Arr [''OTHER'', ''X''], Arr [''Bug''])"
    using assign_then_getAssignments [of aliceEnv "''B''" "[''OTHER'', ''X'']" "[''Bug'']" sampleStore s1 r1] res
    by blast
  show ?thesis
    unfolding res sum.case fst_conv snd_conv using g d by (intro conjI)
qed

section \<open>Matching\<close>

lemma match_is_scopeMatches:
  "(projectMatch t pk \<and> issueTypeMatch t it) = scopeMatches t pk it"
  by (auto simp: projectMatch_def issueTypeMatch_def scopeMatches_def scopeSet_def
      split: option.splits)

lemma matchLoop_find:
  "matchLoop s pk it idx = List.find (eligible pk it) (List.map_filter (templates s) idx)"
proof (induction idx)
  case Nil
  show ?case by (simp add: List.map_filter_simps)
next
  case (Cons i idx)
  show ?case
  proof (cases "templates s i")
    case None
    with Cons show ?thesis by (simp add: List.map_filter_simps)
  next
    case (Some tpl)
    with Cons show ?thesis
      using match_is_scopeMatches [of tpl pk it]
      by (simp add: List.map_filter_simps eligible_def)
  qed
qed

text \<open>
  C3. For a non-empty project key, \<open>findMatchingTemplate\<close> (and
  \<open>findApplicableTemplate\<close>, the same loop) returns the first stored template in
  index order that is not deleted, is active and whose scope matches the project and
  issue type, and returns nothing exactly when there is no such template. A missing
  issue type matches no template whose issue type set is not empty.
\<close>

theorem findMatchingTemplate_first_eligible:
  assumes "projectKey \<noteq> []"
  shows "findMatchingTemplate (Some projectKey) issueType s =
           List.find (eligible projectKey issueType) (indexed s) \<and>
         findApplicableTemplate (Some projectKey) issueType s =
           Inr (List.find (eligible projectKey issueType) (indexed s)) \<and>
         (findMatchingTemplate (Some projectKey) issueType s = None) =
           (\<not> (\<exists>t \<in> set (indexed s). eligible projectKey issueType t)) \<and>
         (scopeSet (assignedIssueTypes t) \<noteq> {} \<longrightarrow> \<not> scopeMatches t projectKey None)"
  using assms
  by (auto simp: findMatchingTemplate_def findApplicableTemplate_def matchLoop_find indexed_def
      find_None_iff scopeMatches_def)

theorem findMatchingTemplate_first_eligible_witness:
  "''PROJ'' \<noteq> [] \<and>
   findMatchingTemplate (Some ''PROJ'') (Some ''Bug'') sampleStore =
     Some (sampleTpl ''B'' (Some (Arr [''PROJ''])) (Some True)) \<and>
   findMatchingTemplate (Some ''NONE'') (Some ''Bug'') sampleStore = None \<and>
   List.find (eligible ''PROJ'' (Some ''Bug'')) (indexed sampleStore) =
     Some (sampleTpl ''B'' (Some (Arr [''PROJ''])) (Some True))"
proof -
  have ne: "''PROJ'' \<noteq> []" by simp
  have a: "findMatchingTemplate (Some ''PROJ'') (Some ''Bug'') sampleStore =
     Some (sampleTpl ''B'' (Some (Arr [''PROJ''])) (Some True))"
    by (simp add: findMatchingTemplate_def sampleStore_def sampleTpl_def projectMatch_def
        issueTypeMatch_def)
  have b: "findMatchingTemplate (Some ''NONE'') (Some ''Bug'') sampleStore = None"
    by (simp add: findMatchingTemplate_def sampleStore_def sampleTpl_def projectMatch_def
        issueTypeMatch_def)
  from findMatchingTemplate_first_eligible [OF ne, of "Some ''Bug''" sampleStore] a b ne
  show ?thesis by simp
qed

section \<open>Prefill\<close>

lemma trim_blank: "(length (trim x) = 0) = blank x"
proof
  assume "length (trim x) = 0"
  then have "dropWhile isWhiteSpace (rev (dropWhile isWhiteSpace x)) = []"
    by (simp add: trim_def)
  then have "\<forall>c \<in> set (dropWhile isWhiteSpace x). isWhiteSpace c"
    by (simp add: dropWhile_eq_Nil_conv)
  then have "dropWhile isWhiteSpace x = []"
    using hd_dropWhile [of isWhiteSpace x] hd_in_set [of "dropWhile isWhiteSpace x"] by blast
  then show "blank x"
    by (simp add: blank_def dropWhile_eq_Nil_conv list_all_iff)
next
  assume "blank x"
  then have d: "dropWhile isWhiteSpace x = []"
    by (simp add: blank_def dropWhile_eq_Nil_conv list_all_iff)
  show "length (trim x) = 0"
    unfolding trim_def d by simp
qed

lemma textFromTpl_blank: "(textFromTpl x \<noteq> None) = (\<not> blank x)"
  using trim_blank [of x] by (auto simp: textFromTpl_def blank_def)

text \<open>
  C5. For a matched template, \<open>applySummary\<close> is true exactly when the template's
  summary is not blank and the caller's current summary is blank (white space only
  counts as blank), and \<open>applyDescription\<close> likewise for the content and the current
  description; the handler returns this prefill for the template that matched.
\<close>

theorem computePrefill_apply_flags:
  "applySummary (computePrefill tpl cs cd) = (\<not> blank (summary tpl) \<and> blank (ensureString cs)) \<and>
   applyDescription (computePrefill tpl cs cd) = (\<not> blank (content tpl) \<and> blank (ensureString cd)) \<and>
   (findMatchingTemplate pk it s = Some tpl \<longrightarrow>
      getPrefillForCreateIssue pk it cs cd s = Some (computePrefill tpl cs cd))"
proof -
  have "findMatchingTemplate pk it s = Some tpl \<Longrightarrow> \<not> falsy pk"
    by (cases pk) (auto simp: findMatchingTemplate_def split: if_splits)
  then show ?thesis
    using trim_blank [of "ensureString cs"] trim_blank [of "ensureString cd"]
      textFromTpl_blank [of "summary tpl"] textFromTpl_blank [of "content tpl"]
    by (auto simp: computePrefill_def Let_def getPrefillForCreateIssue_def)
qed

theorem computePrefill_apply_flags_witness:
  "findMatchingTemplate (Some ''PROJ'') (Some ''Bug'') sampleStore =
     Some (sampleTpl ''B'' (Some (Arr [''PROJ''])) (Some True)) \<and>
   applySummary (computePrefill (sampleTpl ''B'' (Some (Arr [''PROJ''])) (Some True))
      (Some [0x20, 0x09]) (Some [0x78])) \<and>
   \<not> applyDescription (computePrefill (sampleTpl ''B'' (Some (Arr [''PROJ''])) (Some True))
      (Some [0x20, 0x09]) (Some [0x78])) \<and>
   map_option applySummary (getPrefillForCreateIssue (Some ''PROJ'') (Some ''Bug'')
      (Some [0x20, 0x09]) (Some [0x78]) sampleStore) = Some True"
proof -
  have a: "findMatchingTemplate (Some ''PROJ'') (Some ''Bug'') sampleStore =
     Some (sampleTpl ''B'' (Some (Arr [''PROJ''])) (Some True))"
    by (simp add: findMatchingTemplate_def sampleStore_def sampleTpl_def projectMatch_def
        issueTypeMatch_def)
  have b: "\<not> blank (summary (sampleTpl ''B'' (Some (Arr [''PROJ''])) (Some True)))"
    "blank (ensureString (Some [0x20, 0x09]))" "\<not> blank (ensureString (Some [0x78]))"
    by (simp_all add: blank_def isWhiteSpace_def sampleTpl_def)
  from computePrefill_apply_flags [of "sampleTpl ''B'' (Some (Arr [''PROJ''])) (Some True)"
      "Some [0x20, 0x09]" "Some [0x78]" "Some ''PROJ''" "Some ''Bug''" sampleStore] a b
  show ?thesis by simp
qed

section \<open>Creation\<close>

lemma matchLoop_active: "matchLoop s pk it idx = Some x \<Longrightarrow> truthy (active x)"
  by (induction idx) (auto split: option.splits if_splits)

lemma createTemplate_InrD:
  assumes "createTemplate e p s = Inr (s', t)"
  shows "s' = s\<lparr>templates := (templates s)(generateId e \<mapsto> t), index := generateId e # index s\<rparr>"
    and "id_tpl t = generateId e" and "active t = None" and "deleted t = None"
    and "assignedProjects t = None" and "assignedIssueTypes t = None"
    and "projects t = (case c_projects p of None \<Rightarrow> [] | Some v \<Rightarrow> arrayOrEmpty v)"
  using assms
  by (auto simp: createTemplate_def Let_def setTemplate_def split: if_splits)

text \<open>
  C10. The record \<open>createTemplate\<close> stores has no \<open>active\<close> flag and no
  \<open>assignedProjects\<close> or \<open>assignedIssueTypes\<close>; the caller's projects are kept in
  the field \<open>projects\<close>, which neither matching nor enforcement reads. So the new
  template is treated as inactive (matching never returns it, enforcement for it does
  nothing and enforcement for another template skips it), and its project scope is the
  wildcard whatever projects were passed.
\<close>

theorem createTemplate_inactive_wildcard:
  assumes "createTemplate e p s = Inr (s', t)"
  shows "templates s' (generateId e) = Some t \<and> index s' = generateId e # index s \<and>
         active t = None \<and> assignedProjects t = None \<and> assignedIssueTypes t = None \<and>
         projects t = (case c_projects p of None \<Rightarrow> [] | Some v \<Rightarrow> arrayOrEmpty v) \<and>
         findMatchingTemplate pk it s' \<noteq> Some t \<and>
         enforceUniqueActiveTemplates now t s' = ([], s') \<and>
         \<not> competes u s' (generateId e) \<and>
         scopeSet (assignedProjects t) = {} \<and>
         projectMatch t key \<and>
         setsOverlap (assignedProjects t) (Some (Arr xs)) \<and>
         projectMatch (t\<lparr>projects := ys\<rparr>) key = projectMatch t key \<and>
         issueTypeMatch (t\<lparr>projects := ys\<rparr>) it = issueTypeMatch t it \<and>
         scopesOverlap (t\<lparr>projects := ys\<rparr>) u = scopesOverlap t u \<and>
         scopesOverlap u (t\<lparr>projects := ys\<rparr>) = scopesOverlap u t"
proof -
  note d = createTemplate_InrD [OF assms]
  have "findMatchingTemplate pk it s' \<noteq> Some t"
  proof
    assume "findMatchingTemplate pk it s' = Some t"
    then have "truthy (active t)"
      by (auto simp: findMatchingTemplate_def split: option.splits if_splits dest: matchLoop_active)
    with d(3) show False by simp
  qed
  moreover have "enforceUniqueActiveTemplates now t s' = ([], s')"
    using d(3) by (simp add: enforceUniqueActiveTemplates_def)
  moreover have "\<not> competes u s' (generateId e)"
    using d(1,3) by (simp add: competes_def)
  ultimately show ?thesis
    using d
    by (simp add: scopeSet_def projectMatch_def issueTypeMatch_def scopesOverlap_def
        setsOverlap_def)
qed

theorem createTemplate_inactive_wildcard_witness:
  "(case createTemplate adminEnv
        \<lparr>c_name = Some [0x54], c_summary = None, c_content = None,
          c_projects = Some (Arr [''PROJ''])\<rparr> sampleStore of
      Inl err \<Rightarrow> False
    | Inr r \<Rightarrow> projects (snd r) = [''PROJ''] \<and> active (snd r) = None \<and>
        projectMatch (snd r) ''ELSEWHERE'' \<and>
        findMatchingTemplate (Some ''ELSEWHERE'') None (fst r) \<noteq> Some (snd r))"
proof -
  obtain s1 t1 where res: "createTemplate adminEnv
        \<lparr>c_name = Some [0x54], c_summary = None, c_content = None,
          c_projects = Some (Arr [''PROJ''])\<rparr> sampleStore = Inr (s1, t1)"
    by (simp add: createTemplate_def Let_def sample_defs auth_defs text_defs)
  from createTemplate_inactive_wildcard [OF res, of "Some ''ELSEWHERE''" None _ _ "''ELSEWHERE''"]
  have "projects t1 = [''PROJ''] \<and> active t1 = None \<and>
        projectMatch t1 ''ELSEWHERE'' \<and>
        findMatchingTemplate (Some ''ELSEWHERE'') None s1 \<noteq> Some t1"
    by simp
  then show ?thesis
    unfolding res sum.case fst_conv snd_conv .
qed

section \<open>Failures of the assignment handlers\<close>

text \<open>
  C8 (as stated, refuted). \<open>assignTemplateToProjects\<close> given an issue type argument
  that is not an array does not fail: it stores the empty array.
\<close>

theorem nonarray_secondary_axis_accepted:
  "\<not> failsWith Validation
       (assignTemplateToProjects aliceEnv (Some ''A'') (Some (Arr [''PROJ''])) (Some NotArray) sampleStore) \<and>
   (case assignTemplateToProjects aliceEnv (Some ''A'') (Some (Arr [''PROJ''])) (Some NotArray) sampleStore of
      Inl err \<Rightarrow> False
    | Inr r \<Rightarrow> assignedIssueTypes (fst (snd r)) = Some (Arr []))"
  by (simp add: failsWith_def assignTemplateToProjects_def Let_def sample_defs auth_defs)

lemma unknownOrDeleted_cases:
  "unknownOrDeleted s i \<Longrightarrow> templates s i = None \<or> (\<exists>t. templates s i = Some t \<and> truthy (deleted t))"
  by (auto simp: unknownOrDeleted_def split: option.splits)

text \<open>
  C8 (amended). With a non-empty id that is unknown or soft-deleted, \<open>setTemplateActive\<close>
  and \<open>getTemplateAssignments\<close> fail with NotFound, and so do the two assign
  handlers when their own axis is an array. An assign handler whose own axis
  (\<open>projects\<close> for \<open>assignTemplateToProjects\<close>, \<open>issueTypes\<close> for
  \<open>assignTemplateToIssueTypes\<close>) is absent or not an array fails with Validation,
  whatever the id. The other axis, when supplied and not an array, is not rejected:
  the call behaves as if the empty array had been supplied.
\<close>

theorem assignment_engine_failures:
  "(i \<noteq> [] \<and> unknownOrDeleted s i \<longrightarrow>
      failsWith NotFound (setTemplateActive e (Some i) a s) \<and>
      failsWith NotFound (getTemplateAssignments (Some i) s) \<and>
      failsWith NotFound (assignTemplateToProjects e (Some i) (Some (Arr ps)) itsP s) \<and>
      failsWith NotFound (assignTemplateToIssueTypes e (Some i) (Some (Arr its)) psP s)) \<and>
   (\<not> isArray psP \<longrightarrow> failsWith Validation (assignTemplateToProjects e idp psP itsP s)) \<and>
   (\<not> isArray itsP \<longrightarrow> failsWith Validation (assignTemplateToIssueTypes e idp itsP psP s)) \<and>
   assignTemplateToProjects e idp psP (Some NotArray) s =
     assignTemplateToProjects e idp psP (Some (Arr [])) s \<and>
   assignTemplateToIssueTypes e idp itsP (Some NotArray) s =
     assignTemplateToIssueTypes e idp itsP (Some (Arr [])) s"
proof (intro conjI impI)
  assume a: "i \<noteq> [] \<and> unknownOrDeleted s i"
  then have c: "templates s i = None \<or> (\<exists>t. templates s i = Some t \<and> truthy (deleted t))"
    by (simp add: unknownOrDeleted_cases)
  from a c show "failsWith NotFound (setTemplateActive e (Some i) a s)"
    by (auto simp: failsWith_def setTemplateActive_def)
  from a c show "failsWith NotFound (getTemplateAssignments (Some i) s)"
    by (auto simp: failsWith_def getTemplateAssignments_def)
  from a c show "failsWith NotFound (assignTemplateToProjects e (Some i) (Some (Arr ps)) itsP s)"
    by (auto simp: failsWith_def assignTemplateToProjects_def)
  from a c show "failsWith NotFound (assignTemplateToIssueTypes e (Some i) (Some (Arr its)) psP s)"
    by (auto simp: failsWith_def assignTemplateToIssueTypes_def)
next
  assume "\<not> isArray psP"
  then show "failsWith Validation (assignTemplateToProjects e idp psP itsP s)"
    by (auto simp: failsWith_def assignTemplateToProjects_def isArray_def
        split: option.splits jsarr.splits)
next
  assume "\<not> isArray itsP"
  then show "failsWith Validation (assignTemplateToIssueTypes e idp itsP psP s)"
    by (auto simp: failsWith_def assignTemplateToIssueTypes_def isArray_def
        split: option.splits jsarr.splits)
next
  show "assignTemplateToProjects e idp psP (Some NotArray) s =
     assignTemplateToProjects e idp psP (Some (Arr [])) s"
    by (simp add: assignTemplateToProjects_def Let_def split: option.splits jsarr.splits)
  show "assignTemplateToIssueTypes e idp itsP (Some NotArray) s =
     assignTemplateToIssueTypes e idp itsP (Some (Arr [])) s"
    by (simp add: assignTemplateToIssueTypes_def Let_def split: option.splits jsarr.splits)
qed

theorem assignment_engine_failures_witness:
  "''Z'' \<noteq> [] \<and> unknownOrDeleted sampleStore ''Z'' \<and>
   setTemplateActive aliceEnv (Some ''Z'') True sampleStore = Inl TemplateNotFound \<and>
   getTemplateAssignments (Some ''Z'') sampleStore = Inl TemplateNotFound \<and>
   \<not> isArray (Some NotArray) \<and>
   assignTemplateToProjects aliceEnv (Some ''Z'') (Some NotArray) None sampleStore =
     Inl ProjectsMustBeArray \<and>
   assignTemplateToIssueTypes aliceEnv (Some ''Z'') None (Some NotArray) sampleStore =
     Inl IssueTypesMustBeArray"
proof -
  have h: "''Z'' \<noteq> [] \<and> unknownOrDeleted sampleStore ''Z''" "\<not> isArray (Some NotArray)" "\<not> isArray None"
    by (simp_all add: unknownOrDeleted_def isArray_def sample_defs)
  have v: "setTemplateActive aliceEnv (Some ''Z'') True sampleStore = Inl TemplateNotFound"
    "getTemplateAssignments (Some ''Z'') sampleStore = Inl TemplateNotFound"
    "assignTemplateToProjects aliceEnv (Some ''Z'') (Some NotArray) None sampleStore =
       Inl ProjectsMustBeArray"
    "assignTemplateToIssueTypes aliceEnv (Some ''Z'') None (Some NotArray) sampleStore =
       Inl IssueTypesMustBeArray"
    by (simp_all add: setTemplateActive_def getTemplateAssignments_def
        assignTemplateToProjects_def assignTemplateToIssueTypes_def sample_defs)
  from assignment_engine_failures [where i = "''Z''" and s = sampleStore and e = aliceEnv
      and a = True and psP = "Some NotArray" and itsP = None and idp = "Some ''Z''"] h v
  show ?thesis by simp
qed

section \<open>Authorization\<close>

text \<open>
  C4 (the code at the failing input). Mallory is not the owner of the sample templates
  and no admin, and the global flag is off: \<open>updateTemplate\<close>, \<open>deleteTemplate\<close>
  and \<open>assignTemplateToIssueTypes\<close> refuse her, but \<open>setTemplateActive\<close> activates
  \<open>A\<close> for her (and deactivates \<open>C\<close> and \<open>B\<close>), and \<open>duplicateTemplate\<close> stores
  a copy of \<open>B\<close> that she owns.
\<close>

theorem unauthorized_activation_and_duplication:
  "\<not> mayEdit malloryEnv sampleStore (sampleTpl ''A'' None None) \<and>
   updateTemplate malloryEnv (activatePayload ''A'') sampleStore = Inl NotAuthorizedUpdate \<and>
   deleteTemplate malloryEnv (Some ''A'') False sampleStore = Inl NotAuthorizedDelete \<and>
   assignTemplateToIssueTypes malloryEnv (Some ''A'') (Some (Arr [])) None sampleStore =
     Inl NotAuthorizedAssignIssueTypes \<and>
   (case setTemplateActive malloryEnv (Some ''A'') True sampleStore of
      Inl err \<Rightarrow> False
    | Inr r \<Rightarrow> \<not> isActiveIn sampleStore ''A'' \<and> isActiveIn (fst r) ''A'' \<and> \<not> isActiveIn (fst r) ''B'' \<and>
        \<not> isActiveIn (fst r) ''C'' \<and> snd (snd r) = [''C'', ''B'']) \<and>
   (case duplicateTemplate malloryEnv (Some ''B'') None sampleStore of
      Inl err \<Rightarrow> False
    | Inr r \<Rightarrow> index (fst r) = [''D'', ''C'', ''B'', ''A''] \<and> owner (snd r) = Some ''mallory'' \<and>
        templates (fst r) ''D'' = Some (snd r))"
  by (simp add: updateTemplate_def deleteTemplate_def assignTemplateToIssueTypes_def
      setTemplateActive_def duplicateTemplate_def Let_def isActiveIn_def
      sample_defs auth_defs enforce_defs)

section \<open>The invariant of one active template per scope\<close>

text \<open>
  C1 (the code at the failing input). After two templates without scope were created
  and \<open>A\<close> was activated, \<open>A\<close> alone covers project \<open>PROJ\<close> and issue type
  \<open>Bug\<close>. Activating \<open>B\<close> through \<open>updateTemplate\<close>, or duplicating \<open>A\<close>,
  leaves two active templates that cover the pair.
\<close>

theorem update_and_duplicate_break_uniqueness:
  "activeCovering (run setupSession emptyStore) ''PROJ'' ''Bug'' = [''A''] \<and>
   activeCovering (run updateSession emptyStore) ''PROJ'' ''Bug'' = [''B'', ''A''] \<and>
   activeCovering (run duplicateSession emptyStore) ''PROJ'' ''Bug'' = [''C'', ''A'']"
  by (simp add: activeCovering_def indexed_def List.map_filter_simps eligible_def scopeMatches_def
      scopeSet_def createTemplate_def updateTemplate_def setTemplateActive_def duplicateTemplate_def
      mergeUpdates_def Let_def sample_defs auth_defs enforce_defs text_defs)

end
